theory Spec2Isabelle
  imports Complex_Main
begin

section \<open>Vendor device objects as seen by the integration\<close>

text \<open>
  The enumerations live in the vendor SDK (\<^verbatim>\<open>vivintpy.enums\<close>). The members that
  \<^verbatim>\<open>binary_sensor.py\<close> names are constructors of their own; every other
  member is carried by its raw value.
\<close>

datatype EquipmentType =
    EquipmentType_MOTION
  | EquipmentType_FREEZE
  | EquipmentType_WATER
  | EquipmentType_TEMPERATURE
  | EquipmentType_CONTACT
  | EquipmentType_other int

datatype SensorType =
    SensorType_EXIT_ENTRY_1
  | SensorType_PERIMETER
  | SensorType_FIRE
  | SensorType_FIRE_WITH_VERIFICATION
  | SensorType_CARBON_MONOXIDE
  | SensorType_other int

datatype BinarySensorDeviceClass =
    DeviceClass_MOTION
  | DeviceClass_COLD
  | DeviceClass_MOISTURE
  | DeviceClass_HEAT
  | DeviceClass_GARAGE_DOOR
  | DeviceClass_DOOR
  | DeviceClass_SAFETY
  | DeviceClass_WINDOW
  | DeviceClass_SMOKE
  | DeviceClass_GAS
  | DeviceClass_CONNECTIVITY

text \<open>
  A device is duck-typed in the source: \<^verbatim>\<open>isinstance\<close> and \<^verbatim>\<open>hasattr\<close>
  tests decide what it is. The record holds the outcome of each test the source performs
  and the attributes the entities read.
\<close>

record device =
  device_id :: nat
  panel_id :: nat
  device_name :: string
  is_WirelessSensor :: bool
  is_Camera :: bool
  has_node_online :: bool
  has_is_online :: bool
  equipment_type :: EquipmentType
  sensor_type :: SensorType
  equipment_code_name :: string

section \<open>Python's substring test\<close>

text \<open>\<^verbatim>\<open>needle in hay\<close> on strings: some position of \<open>hay\<close> starts with \<open>needle\<close>.\<close>

fun startswith :: "string \<Rightarrow> string \<Rightarrow> bool" where
  "startswith s [] = True"
| "startswith [] (p # ps) = False"
| "startswith (c # cs) (p # ps) = (c = p \<and> startswith cs ps)"

fun str_in :: "string \<Rightarrow> string \<Rightarrow> bool" where
  "str_in needle [] = (needle = [])"
| "str_in needle (c # cs) = (startswith (c # cs) needle \<or> str_in needle cs)"

section \<open>The generic binary sensor: \<^verbatim>\<open>VivintBinarySensorEntity.device_class\<close>\<close>

text \<open>
  The property is an \<^verbatim>\<open>if/elif\<close> chain. The \<^verbatim>\<open>CONTACT\<close> branch has an inner chain
  with no final \<^verbatim>\<open>else\<close>: Python then leaves the property by falling off its end,
  which returns \<^verbatim>\<open>None\<close>; that is the \<open>None\<close> of the model.
\<close>

definition device_class :: "device \<Rightarrow> BinarySensorDeviceClass option" where
  "device_class d =
     (if equipment_type d = EquipmentType_MOTION then Some DeviceClass_MOTION
      else if equipment_type d = EquipmentType_FREEZE then Some DeviceClass_COLD
      else if equipment_type d = EquipmentType_WATER then Some DeviceClass_MOISTURE
      else if equipment_type d = EquipmentType_TEMPERATURE then Some DeviceClass_HEAT
      else if equipment_type d = EquipmentType_CONTACT then
        (if sensor_type d = SensorType_EXIT_ENTRY_1 then
           Some (if str_in ''TILT'' (equipment_code_name d)
                 then DeviceClass_GARAGE_DOOR else DeviceClass_DOOR)
         else if sensor_type d = SensorType_PERIMETER then
           Some (if str_in ''GLASS_BREAK'' (equipment_code_name d)
                 then DeviceClass_SAFETY else DeviceClass_WINDOW)
         else if sensor_type d \<in> set [SensorType_FIRE, SensorType_FIRE_WITH_VERIFICATION] then
           Some DeviceClass_SMOKE
         else if sensor_type d = SensorType_CARBON_MONOXIDE then Some DeviceClass_GAS
         else None)
      else Some DeviceClass_SAFETY)"

section \<open>Device classification: \<^verbatim>\<open>async_setup_entry\<close> of the binary-sensor platform\<close>

record alarm_panel =
  devices :: "device list"

record system =
  alarm_panels :: "alarm_panel list"

text \<open>The three entity classes of \<^verbatim>\<open>binary_sensor.py\<close>; the connectivity entity keeps its key.\<close>

datatype entity =
    VivintBinarySensorEntity device
  | VivintCameraBinarySensorEntity device
  | VivintOnlineBinarySensorEntity device string

text \<open>The body of the innermost loop: the \<^verbatim>\<open>if/elif\<close> chain appends to \<open>entities\<close>.\<close>

definition classify_device :: "device \<Rightarrow> entity list \<Rightarrow> entity list" where
  "classify_device d entities =
     (if is_WirelessSensor d then entities @ [VivintBinarySensorEntity d]
      else if is_Camera d then entities @ [VivintCameraBinarySensorEntity d]
      else if has_node_online d then entities @ [VivintOnlineBinarySensorEntity d ''node_online'']
      else if has_is_online d then entities @ [VivintOnlineBinarySensorEntity d ''is_online'']
      else entities)"

fun for_devices :: "device list \<Rightarrow> entity list \<Rightarrow> entity list" where
  "for_devices [] entities = entities"
| "for_devices (d # ds) entities = for_devices ds (classify_device d entities)"

fun for_alarm_panels :: "alarm_panel list \<Rightarrow> entity list \<Rightarrow> entity list" where
  "for_alarm_panels [] entities = entities"
| "for_alarm_panels (p # ps) entities = for_alarm_panels ps (for_devices (devices p) entities)"

fun for_systems :: "system list \<Rightarrow> entity list \<Rightarrow> entity list" where
  "for_systems [] entities = entities"
| "for_systems (s # ss) entities = for_systems ss (for_alarm_panels (alarm_panels s) entities)"

text \<open>
  The host side of the platform, for one config entry: the entities handed to
  \<^verbatim>\<open>async_add_entities\<close> so far, and how many times \<^verbatim>\<open>async_add_sensor\<close> is connected
  to the entry's "add binary sensor" dispatcher signal.
\<close>

record platform =
  added_entities :: "entity list"
  add_sensor_listeners :: nat

definition async_add_entities :: "entity list \<Rightarrow> platform \<Rightarrow> platform" where
  "async_add_entities entities p = p\<lparr>added_entities := added_entities p @ entities\<rparr>"

definition async_add_sensor :: "device \<Rightarrow> platform \<Rightarrow> platform" where
  "async_add_sensor d p =
     async_add_entities (if is_WirelessSensor d then [VivintBinarySensorEntity d] else []) p"

definition async_setup_entry :: "system list \<Rightarrow> platform \<Rightarrow> platform" where
  "async_setup_entry systems p =
     (let entities = for_systems systems [] in
      if entities = [] then p
      else (async_add_entities entities p)
             \<lparr>add_sensor_listeners := Suc (add_sensor_listeners p)\<rparr>)"

text \<open>
  The host's dispatcher: sending the signal with a device calls every connected target
  once.
\<close>

definition dispatch_device_added :: "device \<Rightarrow> platform \<Rightarrow> platform" where
  "dispatch_device_added d p = ((async_add_sensor d) ^^ (add_sensor_listeners p)) p"

fun dispatch_all :: "device list \<Rightarrow> platform \<Rightarrow> platform" where
  "dispatch_all [] p = p"
| "dispatch_all (d # ds) p = dispatch_all ds (dispatch_device_added d p)"

definition new_platform :: platform where
  "new_platform = \<lparr>added_entities = [], add_sensor_listeners = 0\<rparr>"

subsection \<open>The classifier contract, as the specification words it\<close>

datatype adapter_kind =
    Generic_binary_sensor
  | Motion_adapter
  | Connectivity_on_node_online
  | Connectivity_on_is_online

text \<open>First match wins: rules 1 to 5 of the contract, in its order.\<close>

definition spec_classify :: "device \<Rightarrow> adapter_kind option" where
  "spec_classify d =
     (if is_WirelessSensor d then Some Generic_binary_sensor
      else if is_Camera d then Some Motion_adapter
      else if has_node_online d then Some Connectivity_on_node_online
      else if has_is_online d then Some Connectivity_on_is_online
      else None)"

fun entity_device :: "entity \<Rightarrow> device" where
  "entity_device (VivintBinarySensorEntity d) = d"
| "entity_device (VivintCameraBinarySensorEntity d) = d"
| "entity_device (VivintOnlineBinarySensorEntity d k) = d"

text \<open>
  The adapter kind an entity object is; a connectivity entity with a key other than the
  two flag names is none of the four kinds.
\<close>

fun entity_kind :: "entity \<Rightarrow> adapter_kind option" where
  "entity_kind (VivintBinarySensorEntity d) = Some Generic_binary_sensor"
| "entity_kind (VivintCameraBinarySensorEntity d) = Some Motion_adapter"
| "entity_kind (VivintOnlineBinarySensorEntity d k) =
     (if k = ''node_online'' then Some Connectivity_on_node_online
      else if k = ''is_online'' then Some Connectivity_on_is_online
      else None)"

definition all_devices :: "system list \<Rightarrow> device list" where
  "all_devices systems = concat (map devices (concat (map alarm_panels systems)))"

text \<open>What the contract assigns to one device: nothing, or the device with its kind.\<close>

definition spec_assignment :: "device \<Rightarrow> (device \<times> adapter_kind option) list" where
  "spec_assignment d = (case spec_classify d of None \<Rightarrow> [] | Some k \<Rightarrow> [(d, Some k)])"

section \<open>The camera motion sensor: \<^verbatim>\<open>VivintCameraBinarySensorEntity\<close>\<close>






















section \<open>The session manager: \<^verbatim>\<open>VivintHub\<close>\<close>

text \<open>
  The exceptions the source names, and the two Python raises on a missing attribute or a
  missing file. In the vendor SDK the MFA error is a subclass of the authentication error,
  which is a subclass of the API error.
\<close>

datatype exception =
    VivintSkyApiMfaRequiredError
  | VivintSkyApiAuthenticationError
  | VivintSkyApiError
  | ClientResponseError
  | ClientConnectorError
  | AttributeError
  | FileNotFoundError
  | OSError

fun isinstance :: "exception \<Rightarrow> exception \<Rightarrow> bool" where
  "isinstance VivintSkyApiMfaRequiredError cls =
     (cls \<in> set [VivintSkyApiMfaRequiredError, VivintSkyApiAuthenticationError, VivintSkyApiError])"
| "isinstance VivintSkyApiAuthenticationError cls =
     (cls \<in> set [VivintSkyApiAuthenticationError, VivintSkyApiError])"
| "isinstance FileNotFoundError cls = (cls \<in> set [FileNotFoundError, OSError])"
| "isinstance ex cls = (ex = cls)"

type_synonym cookie_jar = "string list"

record client_session =
  session_cookie_jar :: cookie_jar
  closed :: bool

record account =
  connected :: bool

text \<open>
  The hub object. \<open>undo_listener\<close> tells whether a teardown callback is registered.
  The account's API client is built on the hub's own session, so the jar that
  \<^verbatim>\<open>save_session\<close> reaches through the account is the jar of \<open>session\<close>.
\<close>

record hub =
  logged_in :: bool
  hub_account :: "account option"
  session :: "client_session option"
  undo_listener :: bool
  log :: "string list"

text \<open>
  What the hub acts on: the cache file on disk (absent, or the jar it holds) and counters
  of the calls that reach the account, the HTTP session and the teardown callback.
\<close>

record world =
  cache_file :: "cookie_jar option"
  account_disconnects :: nat
  session_closes :: nat
  undo_listener_calls :: nat

text \<open>
  The outcome of the vendor's \<^verbatim>\<open>Account.connect\<close> and of writing the jar to disk are
  inputs: whether each raises, and the cookies the session holds after the attempt.
\<close>

record api =
  connect_raises :: "exception option"
  connect_cookies :: "cookie_jar \<Rightarrow> cookie_jar"
  save_raises :: "exception option"

definition save_session :: "api \<Rightarrow> hub \<times> world \<Rightarrow> (exception + bool) \<times> hub \<times> world" where
  "save_session a s =
     (case session (fst s) of
        None \<Rightarrow> (Inl AttributeError, s)
      | Some cs \<Rightarrow>
          (case save_raises a of
             Some ex \<Rightarrow> (Inl ex, s)
           | None \<Rightarrow>
               (Inr True,
                (fst s)\<lparr>logged_in := True\<rparr>,
                (snd s)\<lparr>cache_file := Some (session_cookie_jar cs)\<rparr>)))"

text \<open>The \<^verbatim>\<open>except\<close> clauses of \<^verbatim>\<open>login\<close>, tried in order; each re-raises what it caught.\<close>

definition login_handlers :: "exception \<Rightarrow> hub \<Rightarrow> hub" where
  "login_handlers ex h =
     (if isinstance ex VivintSkyApiMfaRequiredError then h
      else if isinstance ex VivintSkyApiAuthenticationError then
        h\<lparr>log := log h @ [''Invalid credentials'']\<rparr>
      else if isinstance ex VivintSkyApiError \<or> isinstance ex ClientResponseError
              \<or> isinstance ex ClientConnectorError then
        h\<lparr>log := log h @ [''Unable to connect to the Vivint API'']\<rparr>
      else h)"

definition login :: "api \<Rightarrow> hub \<times> world \<Rightarrow> (exception + bool) \<times> hub \<times> world" where
  "login a s =
     (let h0 = (fst s)\<lparr>logged_in := False\<rparr>;
          w = snd s;
          (jar, h1) = (case cache_file w of
                         Some saved \<Rightarrow> (saved, h0)
                       | None \<Rightarrow> ([], h0\<lparr>log := log h0 @ [''No previous session found'']\<rparr>));
          h2 = h1\<lparr>session := Some \<lparr>session_cookie_jar = jar, closed = False\<rparr>,
                  hub_account := Some \<lparr>connected = False\<rparr>\<rparr>;
          h3 = h2\<lparr>session := Some \<lparr>session_cookie_jar = connect_cookies a jar, closed = False\<rparr>\<rparr>;
          body = (case connect_raises a of
                    Some ex \<Rightarrow> (Inl ex, h3, w)
                  | None \<Rightarrow> save_session a (h3\<lparr>hub_account := Some \<lparr>connected = True\<rparr>\<rparr>, w))
      in case fst body of
           Inr r \<Rightarrow> body
         | Inl ex \<Rightarrow> (Inl ex, login_handlers ex (fst (snd body)), snd (snd body)))"

definition remove_cache_file :: "world \<Rightarrow> exception + world" where
  "remove_cache_file w =
     (case cache_file w of
        None \<Rightarrow> Inl FileNotFoundError
      | Some jar \<Rightarrow> Inr (w\<lparr>cache_file := None\<rparr>))"

definition disconnect :: "bool \<Rightarrow> hub \<times> world \<Rightarrow> (exception + unit) \<times> hub \<times> world" where
  "disconnect remove_cache s =
     (case hub_account (fst s) of
        None \<Rightarrow> (Inl AttributeError, s)
      | Some acc \<Rightarrow>
          (let s1 = (if connected acc
                     then ((fst s)\<lparr>hub_account := Some (acc\<lparr>connected := False\<rparr>)\<rparr>,
                           (snd s)\<lparr>account_disconnects := Suc (account_disconnects (snd s))\<rparr>)
                     else s)
           in case session (fst s1) of
                None \<Rightarrow> (Inl AttributeError, s1)
              | Some cs \<Rightarrow>
                  (let s2 = (if \<not> closed cs
                             then ((fst s1)\<lparr>session := Some (cs\<lparr>closed := True\<rparr>)\<rparr>,
                                   (snd s1)\<lparr>session_closes := Suc (session_closes (snd s1))\<rparr>)
                             else s1)
                   in case (if remove_cache then remove_cache_file (snd s2) else Inr (snd s2)) of
                        Inl ex \<Rightarrow> (Inl ex, s2)
                      | Inr w3 \<Rightarrow>
                          (if undo_listener (fst s2)
                           then (Inr (),
                                 (fst s2)\<lparr>undo_listener := False\<rparr>,
                                 w3\<lparr>undo_listener_calls := Suc (undo_listener_calls w3)\<rparr>)
                           else (Inr (), fst s2, w3)))))"

text \<open>A run of calls; a call that raises leaves the later calls to be made all the same.\<close>

fun disconnects :: "bool list \<Rightarrow> hub \<times> world \<Rightarrow> hub \<times> world" where
  "disconnects [] s = s"
| "disconnects (rc # rcs) s = disconnects rcs (snd (disconnect rc s))"

fun disconnect_results :: "bool list \<Rightarrow> hub \<times> world \<Rightarrow> (exception + unit) list" where
  "disconnect_results [] s = []"
| "disconnect_results (rc # rcs) s =
     fst (disconnect rc s) # disconnect_results rcs (snd (disconnect rc s))"

text \<open>The teardown calls made so far, plus the one still owed while a callback is registered.\<close>

definition teardown_budget :: "hub \<times> world \<Rightarrow> nat" where
  "teardown_budget s = undo_listener_calls (snd s) + (if undo_listener (fst s) then 1 else 0)"

text \<open>A hub as \<^verbatim>\<open>__init__\<close> leaves it, with a teardown callback, and an empty disk.\<close>

definition new_hub :: "hub \<times> world" where
  "new_hub = (\<lparr>logged_in = False, hub_account = None, session = None, undo_listener = True,
                log = []\<rparr>,
              \<lparr>cache_file = None, account_disconnects = 0, session_closes = 0,
                undo_listener_calls = 0\<rparr>)"

definition api_ok :: api where
  "api_ok = \<lparr>connect_raises = None, connect_cookies = (\<lambda>jar. ''s=1'' # jar), save_raises = None\<rparr>"

section \<open>The camera entity: \<^verbatim>\<open>VivintCam\<close>\<close>

text \<open>
  Modelled from the spec: \<^verbatim>\<open>const.py\<close> is missing, and with it the values of
  \<^verbatim>\<open>RTSP_STREAM_DIRECT\<close> and \<^verbatim>\<open>RTSP_STREAM_EXTERNAL\<close>. The configuration option
  \<^verbatim>\<open>rtsp_stream\<close> ranges over direct, internal and external.
\<close>

datatype rtsp_stream_mode = RTSP_STREAM_DIRECT | RTSP_STREAM_INTERNAL | RTSP_STREAM_EXTERNAL

type_synonym image = string

text \<open>
  The vendor camera's two URL methods and the host's image-capture helper are inputs. Each
  returns a Python value (\<^verbatim>\<open>None\<close> or a string) or raises.
\<close>

record camera_api =
  get_direct_rtsp_url :: "bool \<Rightarrow> exception + string option"
  get_rtsp_url :: "bool \<Rightarrow> bool \<Rightarrow> exception + string option"
  async_get_image :: "string option \<Rightarrow> exception + image option"

text \<open>\<open>url_requests\<close> counts the calls made to the vendor camera's URL methods.\<close>

record VivintCam =
  hd_stream :: bool
  rtsp_stream :: rtsp_stream_mode
  stream_source_cache :: "string option"
  last_image :: "image option"
  url_requests :: nat
  cam_log :: "string list"

text \<open>Python's truth value of \<^verbatim>\<open>None\<close> or a string.\<close>

fun truthy :: "string option \<Rightarrow> bool" where
  "truthy None = False"
| "truthy (Some s) = (s \<noteq> [])"

text \<open>
  The first operand of the \<^verbatim>\<open>or\<close>: the direct URL when the mode is direct, else
  \<^verbatim>\<open>None\<close> with no call made.
\<close>

definition direct_operand :: "camera_api \<Rightarrow> VivintCam \<Rightarrow> (exception + string option) \<times> VivintCam" where
  "direct_operand a cam =
     (if rtsp_stream cam = RTSP_STREAM_DIRECT
      then (get_direct_rtsp_url a (hd_stream cam), cam\<lparr>url_requests := Suc (url_requests cam)\<rparr>)
      else (Inr None, cam))"

definition stream_source :: "camera_api \<Rightarrow> VivintCam \<Rightarrow> (exception + string option) \<times> VivintCam" where
  "stream_source a cam =
     (if \<not> truthy (stream_source_cache cam) then
        (case direct_operand a cam of
           (Inl ex, cam1) \<Rightarrow> (Inl ex, cam1)
         | (Inr direct, cam1) \<Rightarrow>
             (if truthy direct then (Inr direct, cam1\<lparr>stream_source_cache := direct\<rparr>)
              else
                (let cam2 = cam1\<lparr>url_requests := Suc (url_requests cam1)\<rparr> in
                 case get_rtsp_url a (rtsp_stream cam \<noteq> RTSP_STREAM_EXTERNAL) (hd_stream cam) of
                   Inl ex \<Rightarrow> (Inl ex, cam2)
                 | Inr relay \<Rightarrow> (Inr relay, cam2\<lparr>stream_source_cache := relay\<rparr>))))
      else (Inr (stream_source_cache cam), cam))"


definition new_cam :: "bool \<Rightarrow> rtsp_stream_mode \<Rightarrow> VivintCam" where
  "new_cam is_hd mode =
     \<lparr>hd_stream = is_hd, rtsp_stream = mode, stream_source_cache = None, last_image = None,
      url_requests = 0, cam_log = []\<rparr>"

text \<open>A camera with no direct stream, and one with all three.\<close>

definition relay_url :: "bool \<Rightarrow> bool \<Rightarrow> string" where
  "relay_url internal is_hd =
     (if internal then ''rtsp://u:p@int'' else ''rtsp://u:p@ext'') @ (if is_hd then ''/hd'' else ''/sd'')"

definition cam_without_direct :: camera_api where
  "cam_without_direct =
     \<lparr>get_direct_rtsp_url = (\<lambda>is_hd. Inr None),
      get_rtsp_url = (\<lambda>internal is_hd. Inr (Some (relay_url internal is_hd))),
      async_get_image = (\<lambda>src. Inr (Some ''jpeg''))\<rparr>"

definition cam_with_direct :: camera_api where
  "cam_with_direct =
     \<lparr>get_direct_rtsp_url = (\<lambda>is_hd. Inr (Some (if is_hd then ''rtsp://u:p@cam/hd'' else ''rtsp://u:p@cam/sd''))),
      get_rtsp_url = (\<lambda>internal is_hd. Inr (Some (relay_url internal is_hd))),
      async_get_image = (\<lambda>src. Inl OSError)\<rparr>"


section \<open>Concrete devices\<close>

definition tilt_sensor :: device where
  "tilt_sensor =
     \<lparr>device_id = 7, panel_id = 1, device_name = ''Garage'', is_WirelessSensor = True,
      is_Camera = False, has_node_online = False, has_is_online = False,
      equipment_type = EquipmentType_CONTACT, sensor_type = SensorType_EXIT_ENTRY_1,
      equipment_code_name = ''TILT_SENSOR_2GIG_345''\<rparr>"

definition door_sensor :: device where
  "door_sensor = tilt_sensor\<lparr>device_id := 8, device_name := ''Front door'',
     equipment_code_name := ''DW10_THIN_DOOR_WINDOW''\<rparr>"

definition doorbell_camera :: device where
  "doorbell_camera = tilt_sensor\<lparr>device_id := 9, device_name := ''Doorbell'',
     is_WirelessSensor := False, is_Camera := True, has_is_online := True\<rparr>"

definition door_lock :: device where
  "door_lock = tilt_sensor\<lparr>device_id := 10, device_name := ''Lock'',
     is_WirelessSensor := False, has_node_online := True, has_is_online := True\<rparr>"

definition garage_door :: device where
  "garage_door = tilt_sensor\<lparr>device_id := 11, device_name := ''Garage door'',
     is_WirelessSensor := False, has_is_online := True\<rparr>"

definition plain_device :: device where
  "plain_device = tilt_sensor\<lparr>device_id := 12, device_name := ''Keypad'',
     is_WirelessSensor := False\<rparr>"

section \<open>Substrings\<close>

lemma startswith_iff: "startswith s p \<longleftrightarrow> (\<exists>r. s = p @ r)"
  by (induction s p rule: startswith.induct) auto

lemma str_in_iff: "str_in needle hay \<longleftrightarrow> (\<exists>pre post. hay = pre @ needle @ post)"
proof (induction hay)
  case Nil
  show ?case by auto
next
  case (Cons c cs)
  show ?case
  proof
    assume "str_in needle (c # cs)"
    then consider "startswith (c # cs) needle" | "str_in needle cs" by auto
    then show "\<exists>pre post. c # cs = pre @ needle @ post"
    proof cases
      case 1
      then obtain r where "c # cs = needle @ r" by (auto simp: startswith_iff)
      then have "c # cs = [] @ needle @ r" by simp
      then show ?thesis by blast
    next
      case 2
      then obtain pre post where "cs = pre @ needle @ post" using Cons.IH by blast
      then have "c # cs = (c # pre) @ needle @ post" by simp
      then show ?thesis by blast
    qed
  next
    assume "\<exists>pre post. c # cs = pre @ needle @ post"
    then obtain pre post where eq: "c # cs = pre @ needle @ post" by blast
    show "str_in needle (c # cs)"
    proof (cases pre)
      case Nil
      with eq have "startswith (c # cs) needle" by (auto simp: startswith_iff)
      then show ?thesis by simp
    next
      case (Cons a pre')
      with eq have "cs = pre' @ needle @ post" by simp
      then have "str_in needle cs" using Cons.IH by blast
      then show ?thesis by simp
    qed
  qed
qed

section \<open>Device class of a wireless sensor\<close>

text \<open>
  Claim C4. For a wireless sensor whose equipment type is contact and whose sensor type is
  exit/entry-1, the device class is garage door when the equipment code name contains
  "TILT" (somewhere in it, as a contiguous piece) and door otherwise.
\<close>

theorem device_class_contact_exit_entry:
  assumes "equipment_type d = EquipmentType_CONTACT"
      and "sensor_type d = SensorType_EXIT_ENTRY_1"
  shows "device_class d =
           Some (if (\<exists>pre post. equipment_code_name d = pre @ ''TILT'' @ post)
                 then DeviceClass_GARAGE_DOOR else DeviceClass_DOOR)"
  using assms by (simp add: device_class_def str_in_iff)

theorem device_class_contact_exit_entry_witness:
  "is_WirelessSensor tilt_sensor \<and> is_WirelessSensor door_sensor
   \<and> equipment_type tilt_sensor = EquipmentType_CONTACT
   \<and> sensor_type tilt_sensor = SensorType_EXIT_ENTRY_1
   \<and> equipment_type door_sensor = EquipmentType_CONTACT
   \<and> sensor_type door_sensor = SensorType_EXIT_ENTRY_1
   \<and> device_class tilt_sensor = Some DeviceClass_GARAGE_DOOR
   \<and> device_class door_sensor = Some DeviceClass_DOOR"
proof -
  have t: "equipment_type tilt_sensor = EquipmentType_CONTACT"
          "sensor_type tilt_sensor = SensorType_EXIT_ENTRY_1"
    by (simp_all add: tilt_sensor_def)
  have d: "equipment_type door_sensor = EquipmentType_CONTACT"
          "sensor_type door_sensor = SensorType_EXIT_ENTRY_1"
    by (simp_all add: door_sensor_def tilt_sensor_def)
  have n1: "str_in ''TILT'' (equipment_code_name tilt_sensor)"
    by (simp add: tilt_sensor_def)
  have n2: "\<not> str_in ''TILT'' (equipment_code_name door_sensor)"
    by (simp add: door_sensor_def tilt_sensor_def)
  have w: "is_WirelessSensor tilt_sensor" "is_WirelessSensor door_sensor"
    by (simp_all add: door_sensor_def tilt_sensor_def)
  show ?thesis
    using device_class_contact_exit_entry [OF t] device_class_contact_exit_entry [OF d]
      t d n1 n2 w
    by (simp add: str_in_iff)
qed

text \<open>
  Claim C5. A contact sensor whose sensor type is none of exit/entry-1, perimeter, fire,
  fire-with-verification and carbon monoxide gets no device class: the property returns
  \<^verbatim>\<open>None\<close>, neither the safety fallback nor an exception. An equipment type other
  than motion, freeze, water, temperature and contact gets the safety fallback.
\<close>

theorem device_class_contact_fallthrough:
  "(equipment_type d = EquipmentType_CONTACT
      \<and> sensor_type d \<notin> {SensorType_EXIT_ENTRY_1, SensorType_PERIMETER, SensorType_FIRE,
                           SensorType_FIRE_WITH_VERIFICATION, SensorType_CARBON_MONOXIDE}
      \<longrightarrow> device_class d = None)
   \<and> (equipment_type d \<notin> {EquipmentType_MOTION, EquipmentType_FREEZE, EquipmentType_WATER,
                              EquipmentType_TEMPERATURE, EquipmentType_CONTACT}
      \<longrightarrow> device_class d = Some DeviceClass_SAFETY)"
  by (simp add: device_class_def)

theorem device_class_contact_fallthrough_witness:
  "equipment_type (tilt_sensor\<lparr>sensor_type := SensorType_other 2\<rparr>) = EquipmentType_CONTACT
   \<and> sensor_type (tilt_sensor\<lparr>sensor_type := SensorType_other 2\<rparr>)
        \<notin> {SensorType_EXIT_ENTRY_1, SensorType_PERIMETER, SensorType_FIRE,
            SensorType_FIRE_WITH_VERIFICATION, SensorType_CARBON_MONOXIDE}
   \<and> device_class (tilt_sensor\<lparr>sensor_type := SensorType_other 2\<rparr>) = None
   \<and> equipment_type (tilt_sensor\<lparr>equipment_type := EquipmentType_other 11\<rparr>)
        \<notin> {EquipmentType_MOTION, EquipmentType_FREEZE, EquipmentType_WATER,
            EquipmentType_TEMPERATURE, EquipmentType_CONTACT}
   \<and> device_class (tilt_sensor\<lparr>equipment_type := EquipmentType_other 11\<rparr>) = Some DeviceClass_SAFETY"
  using device_class_contact_fallthrough [of "tilt_sensor\<lparr>sensor_type := SensorType_other 2\<rparr>"]
    device_class_contact_fallthrough [of "tilt_sensor\<lparr>equipment_type := EquipmentType_other 11\<rparr>"]
  by (simp add: tilt_sensor_def)

section \<open>Device classification at setup\<close>

lemma classify_device_append: "classify_device d acc = acc @ classify_device d []"
  by (simp add: classify_device_def)

lemma for_devices_concat:
  "for_devices ds acc = acc @ concat (map (\<lambda>d. classify_device d []) ds)"
proof (induction ds arbitrary: acc)
  case Nil
  show ?case by simp
next
  case (Cons d ds)
  have "for_devices (d # ds) acc = classify_device d acc @ concat (map (\<lambda>d. classify_device d []) ds)"
    using Cons.IH [of "classify_device d acc"] by simp
  also have "\<dots> = acc @ classify_device d [] @ concat (map (\<lambda>d. classify_device d []) ds)"
    using classify_device_append [of d acc] by simp
  finally show ?case by simp
qed

lemma for_alarm_panels_concat:
  "for_alarm_panels ps acc =
     acc @ concat (map (\<lambda>d. classify_device d []) (concat (map devices ps)))"
  by (induction ps arbitrary: acc) (simp_all add: for_devices_concat)

lemma for_systems_concat:
  "for_systems ss acc = acc @ concat (map (\<lambda>d. classify_device d []) (all_devices ss))"
  unfolding all_devices_def
  by (induction ss arbitrary: acc) (simp_all add: for_alarm_panels_concat)

lemma classify_device_spec:
  "map (\<lambda>e. (entity_device e, entity_kind e)) (classify_device d []) = spec_assignment d"
  by (simp add: classify_device_def spec_assignment_def spec_classify_def)

lemma map_concat_classify:
  "map (\<lambda>e. (entity_device e, entity_kind e)) (concat (map (\<lambda>d. classify_device d []) ds))
     = concat (map spec_assignment ds)"
  by (induction ds) (simp_all add: classify_device_spec)

lemma added_entities_setup:
  "added_entities (async_setup_entry systems p) = added_entities p @ for_systems systems []"
  by (simp add: async_setup_entry_def async_add_entities_def Let_def)

text \<open>
  Claim C3. Over the traversal systems, panels, devices, setup gives each device at most
  one entity, of the kind the first matching rule names: wireless sensor, generic
  binary-sensor adapter; else camera, motion adapter; else a node-online flag, connectivity
  adapter on that flag; else an is-online flag, connectivity adapter on that flag; else
  nothing. The entities come in traversal order, setup hands exactly them to the host, and
  a second run over the same systems yields the same list again.
\<close>

theorem setup_classification:
  "map (\<lambda>e. (entity_device e, entity_kind e)) (for_systems systems [])
     = concat (map spec_assignment (all_devices systems))
   \<and> length (spec_assignment d) \<le> 1
   \<and> added_entities (async_setup_entry systems p) = added_entities p @ for_systems systems []
   \<and> added_entities (async_setup_entry systems (async_setup_entry systems p))
       = added_entities p @ for_systems systems [] @ for_systems systems []"
proof -
  have "map (\<lambda>e. (entity_device e, entity_kind e)) (for_systems systems [])
          = concat (map spec_assignment (all_devices systems))"
    using for_systems_concat [of systems "[]"] by (simp add: map_concat_classify)
  moreover have "length (spec_assignment d) \<le> 1"
    by (simp add: spec_assignment_def split: option.split)
  ultimately show ?thesis
    by (simp add: added_entities_setup)
qed

theorem setup_classification_example:
  "map (\<lambda>e. (device_id (entity_device e), entity_kind e))
     (for_systems [\<lparr>alarm_panels = [\<lparr>devices = [tilt_sensor, doorbell_camera]\<rparr>,
                                      \<lparr>devices = [plain_device, door_lock, garage_door]\<rparr>]\<rparr>] [])
   = [(7, Some Generic_binary_sensor), (9, Some Motion_adapter),
      (10, Some Connectivity_on_node_online), (11, Some Connectivity_on_is_online)]"
proof -
  have "map (\<lambda>e. (entity_device e, entity_kind e))
          (for_systems [\<lparr>alarm_panels = [\<lparr>devices = [tilt_sensor, doorbell_camera]\<rparr>,
                                           \<lparr>devices = [plain_device, door_lock, garage_door]\<rparr>]\<rparr>] [])
        = [(tilt_sensor, Some Generic_binary_sensor), (doorbell_camera, Some Motion_adapter),
           (door_lock, Some Connectivity_on_node_online),
           (garage_door, Some Connectivity_on_is_online)]"
    using setup_classification
      [of "[\<lparr>alarm_panels = [\<lparr>devices = [tilt_sensor, doorbell_camera]\<rparr>,
                               \<lparr>devices = [plain_device, door_lock, garage_door]\<rparr>]\<rparr>]"]
    by (simp add: all_devices_def spec_assignment_def spec_classify_def tilt_sensor_def
        doorbell_camera_def door_lock_def garage_door_def plain_device_def)
  then have "map (\<lambda>p. (device_id (fst p), snd p))
          (map (\<lambda>e. (entity_device e, entity_kind e))
          (for_systems [\<lparr>alarm_panels = [\<lparr>devices = [tilt_sensor, doorbell_camera]\<rparr>,
                                           \<lparr>devices = [plain_device, door_lock, garage_door]\<rparr>]\<rparr>] []))
        = map (\<lambda>p. (device_id (fst p), snd p))
           [(tilt_sensor, Some Generic_binary_sensor), (doorbell_camera, Some Motion_adapter),
           (door_lock, Some Connectivity_on_node_online),
           (garage_door, Some Connectivity_on_is_online)]"
    by (rule arg_cong)
  then show ?thesis
    by (simp add: comp_def tilt_sensor_def
        doorbell_camera_def door_lock_def garage_door_def)
qed

section \<open>Devices discovered after setup\<close>

lemma dispatch_all_no_listener:
  "add_sensor_listeners p = 0 \<Longrightarrow> dispatch_all ds p = p"
  by (induction ds) (simp_all add: dispatch_device_added_def)

text \<open>
  Claim C10. When the initial classification of a config entry yields no entity,
  \<^verbatim>\<open>async_setup_entry\<close> returns before it connects \<^verbatim>\<open>async_add_sensor\<close> to the
  "device added" signal: the platform is left as it was, and whatever devices are announced
  later, wireless sensors included, no entity is created. The listener is connected exactly
  when the initial list is not empty, and then an announced wireless sensor gets its
  entity.
\<close>

theorem setup_without_entities_never_subscribes:
  "(for_systems systems [] = [] \<longrightarrow>
      async_setup_entry systems new_platform = new_platform
      \<and> added_entities (dispatch_all ds (async_setup_entry systems new_platform)) = [])
   \<and> add_sensor_listeners (async_setup_entry systems new_platform)
       = (if for_systems systems [] = [] then 0 else 1)
   \<and> (for_systems systems [] \<noteq> [] \<longrightarrow>
        added_entities (dispatch_device_added d (async_setup_entry systems new_platform))
          = for_systems systems []
            @ (if is_WirelessSensor d then [VivintBinarySensorEntity d] else []))"
proof -
  have a: "for_systems systems [] = [] \<Longrightarrow> async_setup_entry systems new_platform = new_platform"
    by (simp add: async_setup_entry_def)
  have b: "for_systems systems [] = [] \<Longrightarrow>
             added_entities (dispatch_all ds (async_setup_entry systems new_platform)) = []"
    using a dispatch_all_no_listener [of new_platform ds] by (simp add: new_platform_def)
  have c: "add_sensor_listeners (async_setup_entry systems new_platform)
             = (if for_systems systems [] = [] then 0 else 1)"
    by (simp add: async_setup_entry_def async_add_entities_def new_platform_def Let_def)
  have d: "for_systems systems [] \<noteq> [] \<Longrightarrow>
        added_entities (dispatch_device_added d (async_setup_entry systems new_platform))
          = for_systems systems []
            @ (if is_WirelessSensor d then [VivintBinarySensorEntity d] else [])"
    by (simp add: dispatch_device_added_def async_setup_entry_def async_add_entities_def
        async_add_sensor_def new_platform_def Let_def)
  from a b c d show ?thesis by blast
qed

theorem setup_without_entities_never_subscribes_witness:
  "for_systems [\<lparr>alarm_panels = [\<lparr>devices = [plain_device]\<rparr>]\<rparr>] [] = []
   \<and> is_WirelessSensor tilt_sensor
   \<and> added_entities (dispatch_all [tilt_sensor, door_sensor]
        (async_setup_entry [\<lparr>alarm_panels = [\<lparr>devices = [plain_device]\<rparr>]\<rparr>] new_platform)) = []
   \<and> add_sensor_listeners
        (async_setup_entry [\<lparr>alarm_panels = [\<lparr>devices = [plain_device]\<rparr>]\<rparr>] new_platform) = 0
   \<and> for_systems [\<lparr>alarm_panels = [\<lparr>devices = [door_lock]\<rparr>]\<rparr>] [] \<noteq> []
   \<and> added_entities (dispatch_device_added tilt_sensor
        (async_setup_entry [\<lparr>alarm_panels = [\<lparr>devices = [door_lock]\<rparr>]\<rparr>] new_platform))
       = [VivintOnlineBinarySensorEntity door_lock ''node_online'',
          VivintBinarySensorEntity tilt_sensor]"
proof -
  have e: "for_systems [\<lparr>alarm_panels = [\<lparr>devices = [plain_device]\<rparr>]\<rparr>] [] = []"
    by (simp add: classify_device_def plain_device_def tilt_sensor_def)
  have n: "for_systems [\<lparr>alarm_panels = [\<lparr>devices = [door_lock]\<rparr>]\<rparr>] []
             = [VivintOnlineBinarySensorEntity door_lock ''node_online'']"
    by (simp add: classify_device_def door_lock_def tilt_sensor_def)
  have w: "is_WirelessSensor tilt_sensor" by (simp add: tilt_sensor_def)
  have quiet:
    "added_entities (dispatch_all [tilt_sensor, door_sensor]
        (async_setup_entry [\<lparr>alarm_panels = [\<lparr>devices = [plain_device]\<rparr>]\<rparr>] new_platform)) = []"
    "add_sensor_listeners
        (async_setup_entry [\<lparr>alarm_panels = [\<lparr>devices = [plain_device]\<rparr>]\<rparr>] new_platform) = 0"
    using setup_without_entities_never_subscribes
        [of "[\<lparr>alarm_panels = [\<lparr>devices = [plain_device]\<rparr>]\<rparr>]" "[tilt_sensor, door_sensor]" tilt_sensor]
      e
    by (metis, metis)
  have live:
    "added_entities (dispatch_device_added tilt_sensor
        (async_setup_entry [\<lparr>alarm_panels = [\<lparr>devices = [door_lock]\<rparr>]\<rparr>] new_platform))
       = [VivintOnlineBinarySensorEntity door_lock ''node_online'',
          VivintBinarySensorEntity tilt_sensor]"
    using setup_without_entities_never_subscribes
        [of "[\<lparr>alarm_panels = [\<lparr>devices = [door_lock]\<rparr>]\<rparr>]" "[]" tilt_sensor]
      n w
    by simp
  from e n w quiet live show ?thesis by simp
qed

section \<open>The motion cool-down timer\<close>





























section \<open>Login\<close>

lemma login_connect_raises:
  "connect_raises a = Some ex \<Longrightarrow> fst (login a s) = Inl ex"
  by (simp add: login_def Let_def split: option.split prod.split)

lemma login_connect_raises_logged_out:
  "connect_raises a = Some ex \<Longrightarrow> \<not> logged_in (fst (snd (login a s)))"
  by (simp add: login_def login_handlers_def Let_def split: option.split prod.split)

lemma login_success:
  assumes "fst (login a s) = Inr r"
  shows "r = True \<and> logged_in (fst (snd (login a s)))
         \<and> (\<exists>cs. session (fst (snd (login a s))) = Some cs
                \<and> cache_file (snd (snd (login a s))) = Some (session_cookie_jar cs))"
  using assms
  by (auto simp: login_def save_session_def Let_def split: option.splits prod.splits)

lemma login_all_well:
  "connect_raises a = None \<Longrightarrow> save_raises a = None \<Longrightarrow> fst (login a s) = Inr True"
  by (simp add: login_def save_session_def Let_def split: option.split prod.split)

text \<open>
  Claim C6. \<^verbatim>\<open>login\<close> raises the MFA-required error when the vendor asks for a second
  factor, the authentication error on bad credentials, and the error of the failure itself
  (the vendor's API error, or the HTTP client's response or connector error) when the
  network or the API fails; the session is then not logged in. Whenever \<^verbatim>\<open>login\<close>
  returns, it returns true, the session is marked logged in, and the cache file holds the
  session's cookie jar. It does return when neither connecting nor saving fails.
\<close>

theorem login_outcomes:
  "(connect_raises a = Some VivintSkyApiMfaRequiredError \<longrightarrow>
      fst (login a s) = Inl VivintSkyApiMfaRequiredError
      \<and> \<not> logged_in (fst (snd (login a s))))
   \<and> (connect_raises a = Some VivintSkyApiAuthenticationError \<longrightarrow>
      fst (login a s) = Inl VivintSkyApiAuthenticationError
      \<and> \<not> logged_in (fst (snd (login a s))))
   \<and> (connect_raises a = Some ex
        \<and> ex \<in> {VivintSkyApiError, ClientResponseError, ClientConnectorError} \<longrightarrow>
      fst (login a s) = Inl ex \<and> \<not> logged_in (fst (snd (login a s))))
   \<and> (fst (login a s) = Inr r \<longrightarrow>
      r = True \<and> logged_in (fst (snd (login a s)))
      \<and> (\<exists>cs. session (fst (snd (login a s))) = Some cs
             \<and> cache_file (snd (snd (login a s))) = Some (session_cookie_jar cs)))
   \<and> (connect_raises a = None \<and> save_raises a = None \<longrightarrow> fst (login a s) = Inr True)"
  using login_connect_raises [of a _ s] login_connect_raises_logged_out [of a _ s]
    login_success [of a s r] login_all_well [of a s]
  by blast

theorem login_outcomes_witness:
  "fst (login (api_ok\<lparr>connect_raises := Some VivintSkyApiMfaRequiredError\<rparr>) new_hub)
     = Inl VivintSkyApiMfaRequiredError
   \<and> fst (login (api_ok\<lparr>connect_raises := Some VivintSkyApiAuthenticationError\<rparr>) new_hub)
     = Inl VivintSkyApiAuthenticationError
   \<and> fst (login (api_ok\<lparr>connect_raises := Some ClientConnectorError\<rparr>) new_hub)
     = Inl ClientConnectorError
   \<and> fst (login api_ok new_hub) = Inr True
   \<and> logged_in (fst (snd (login api_ok new_hub)))
   \<and> cache_file (snd (snd (login api_ok new_hub))) = Some [''s=1'']"
proof -
  have mfa: "fst (login (api_ok\<lparr>connect_raises := Some VivintSkyApiMfaRequiredError\<rparr>) new_hub)
     = Inl VivintSkyApiMfaRequiredError"
    using login_outcomes [of "api_ok\<lparr>connect_raises := Some VivintSkyApiMfaRequiredError\<rparr>"
        new_hub VivintSkyApiError True]
    by simp
  have auth: "fst (login (api_ok\<lparr>connect_raises := Some VivintSkyApiAuthenticationError\<rparr>) new_hub)
     = Inl VivintSkyApiAuthenticationError"
    using login_outcomes [of "api_ok\<lparr>connect_raises := Some VivintSkyApiAuthenticationError\<rparr>"
        new_hub VivintSkyApiError True]
    by simp
  have net: "fst (login (api_ok\<lparr>connect_raises := Some ClientConnectorError\<rparr>) new_hub)
     = Inl ClientConnectorError"
    using login_outcomes [of "api_ok\<lparr>connect_raises := Some ClientConnectorError\<rparr>"
        new_hub ClientConnectorError True]
    by simp
  have ok: "fst (login api_ok new_hub) = Inr True"
    using login_outcomes [of api_ok new_hub VivintSkyApiError True]
    by (simp add: api_ok_def)
  have saved: "logged_in (fst (snd (login api_ok new_hub)))"
    using login_outcomes [of api_ok new_hub VivintSkyApiError True] ok by blast
  have jar: "session (fst (snd (login api_ok new_hub)))
               = Some \<lparr>session_cookie_jar = [''s=1''], closed = False\<rparr>"
    by (simp add: login_def save_session_def api_ok_def new_hub_def Let_def)
  have on_disk: "cache_file (snd (snd (login api_ok new_hub))) = Some [''s=1'']"
    using login_outcomes [of api_ok new_hub VivintSkyApiError True] ok jar by auto
  from mfa auth net ok saved on_disk show ?thesis by simp
qed

section \<open>Disconnect\<close>

lemma disconnect_budget: "teardown_budget (snd (disconnect rc s)) \<le> teardown_budget s"
  by (simp add: disconnect_def teardown_budget_def remove_cache_file_def Let_def
      split: option.split sum.split)

lemma disconnects_budget: "teardown_budget (disconnects rcs s) \<le> teardown_budget s"
proof (induction rcs arbitrary: s)
  case Nil
  show ?case by simp
next
  case (Cons rc rcs)
  have "teardown_budget (disconnects rcs (snd (disconnect rc s)))
          \<le> teardown_budget (snd (disconnect rc s))"
    by (rule Cons.IH)
  also have "\<dots> \<le> teardown_budget s" by (rule disconnect_budget)
  finally show ?case by simp
qed

lemma disconnect_effect:
  assumes "hub_account (fst s) = Some acc" and "session (fst s) = Some cs"
  shows "hub_account (fst (snd (disconnect rc s))) = Some (acc\<lparr>connected := False\<rparr>)"
    and "session (fst (snd (disconnect rc s))) = Some (cs\<lparr>closed := True\<rparr>)"
    and "account_disconnects (snd (snd (disconnect rc s)))
           = account_disconnects (snd s) + (if connected acc then 1 else 0)"
    and "session_closes (snd (snd (disconnect rc s)))
           = session_closes (snd s) + (if closed cs then 0 else 1)"
  using assms
  by (auto simp: disconnect_def remove_cache_file_def Let_def split: option.split sum.split)

lemma disconnect_no_removal:
  assumes "hub_account (fst s) = Some acc" and "session (fst s) = Some cs"
  shows "fst (disconnect False s) = Inr ()"
    and "\<not> undo_listener (fst (snd (disconnect False s)))"
    and "undo_listener_calls (snd (snd (disconnect False s)))
           = undo_listener_calls (snd s) + (if undo_listener (fst s) then 1 else 0)"
  using assms by (auto simp: disconnect_def Let_def)

lemma disconnects_closed:
  assumes "hub_account (fst s) = Some acc" and "session (fst s) = Some cs"
      and "\<not> connected acc" and "closed cs"
  shows "account_disconnects (snd (disconnects rcs s)) = account_disconnects (snd s)
         \<and> session_closes (snd (disconnects rcs s)) = session_closes (snd s)"
  using assms
proof (induction rcs arbitrary: s acc cs)
  case Nil
  show ?case by simp
next
  case (Cons rc rcs)
  note eff = disconnect_effect [OF Cons.prems(1,2), of rc]
  have "account_disconnects (snd (disconnects rcs (snd (disconnect rc s))))
          = account_disconnects (snd (snd (disconnect rc s)))
        \<and> session_closes (snd (disconnects rcs (snd (disconnect rc s))))
          = session_closes (snd (snd (disconnect rc s)))"
    by (rule Cons.IH [OF eff(1,2)]) simp_all
  then show ?case using eff(3,4) Cons.prems(3,4) by simp
qed

lemma disconnects_close_once:
  assumes "hub_account (fst s) = Some acc" and "session (fst s) = Some cs"
  shows "account_disconnects (snd (disconnects (rc # rcs) s))
           = account_disconnects (snd s) + (if connected acc then 1 else 0)
         \<and> session_closes (snd (disconnects (rc # rcs) s))
           = session_closes (snd s) + (if closed cs then 0 else 1)"
proof -
  note eff = disconnect_effect [OF assms, of rc]
  have "account_disconnects (snd (disconnects rcs (snd (disconnect rc s))))
          = account_disconnects (snd (snd (disconnect rc s)))
        \<and> session_closes (snd (disconnects rcs (snd (disconnect rc s))))
          = session_closes (snd (snd (disconnect rc s)))"
    by (rule disconnects_closed [OF eff(1,2)]) simp_all
  then show ?thesis using eff(3,4) by simp
qed

lemma disconnect_results_no_removal:
  assumes "hub_account (fst s) = Some acc" and "session (fst s) = Some cs"
  shows "disconnect_results (replicate n False) s = replicate n (Inr ())"
  using assms
proof (induction n arbitrary: s acc cs)
  case 0
  show ?case by simp
next
  case (Suc n)
  note eff = disconnect_effect(1,2) [OF Suc.prems, of False]
  have "disconnect_results (replicate n False) (snd (disconnect False s)) = replicate n (Inr ())"
    by (rule Suc.IH [OF eff])
  then show ?case using disconnect_no_removal(1) [OF Suc.prems] by simp
qed

lemma disconnects_no_removal_teardown:
  assumes "hub_account (fst s) = Some acc" and "session (fst s) = Some cs"
  shows "undo_listener_calls (snd (disconnects (replicate (Suc n) False) s))
           = undo_listener_calls (snd s) + (if undo_listener (fst s) then 1 else 0)"
proof -
  define s1 where "s1 = snd (disconnect False s)"
  note one = disconnect_no_removal [OF assms]
  note eff = disconnect_effect(1,2) [OF assms, of False]
  have cleared: "\<not> undo_listener (fst (disconnects (replicate n False) s1))" for n
  proof (induction n)
    case 0
    show ?case using one(2) by (simp add: s1_def)
  next
    case (Suc n)
    have "disconnects (replicate (Suc n) False) s1
            = snd (disconnect False (disconnects (replicate n False) s1))"
      by (induction n arbitrary: s1) simp_all
    then show ?case using Suc by (simp add: disconnect_def Let_def split: option.split)
  qed
  have "teardown_budget (disconnects (replicate n False) s1) \<le> teardown_budget s1"
    by (rule disconnects_budget)
  then have le: "undo_listener_calls (snd (disconnects (replicate n False) s1))
                   \<le> undo_listener_calls (snd s1)"
    using cleared [of n] one(2) by (simp add: teardown_budget_def s1_def)
  have mono: "undo_listener_calls (snd s) \<le> undo_listener_calls (snd (snd (disconnect rc s)))" for rc s
    by (simp add: disconnect_def remove_cache_file_def Let_def split: option.split sum.split)
  have ge: "undo_listener_calls (snd s) \<le> undo_listener_calls (snd (disconnects rcs s))" for rcs s
  proof (induction rcs arbitrary: s)
    case Nil
    show ?case by simp
  next
    case (Cons rc rcs)
    show ?case using Cons [of "snd (disconnect rc s)"] mono [of s rc] by simp
  qed
  have "undo_listener_calls (snd (disconnects (replicate n False) s1))
          = undo_listener_calls (snd s1)"
    using le ge [of s1 "replicate n False"] by simp
  then show ?thesis using one(3) by (simp add: s1_def)
qed

lemma disconnect_removal_without_file:
  assumes "hub_account (fst s) = Some acc" and "session (fst s) = Some cs"
      and "cache_file (snd s) = None"
  shows "fst (disconnect True s) = Inl FileNotFoundError"
    and "undo_listener (fst (snd (disconnect True s))) = undo_listener (fst s)"
    and "undo_listener_calls (snd (snd (disconnect True s))) = undo_listener_calls (snd s)"
    and "cache_file (snd (snd (disconnect True s))) = None"
  using assms by (auto simp: disconnect_def remove_cache_file_def Let_def)

lemma disconnect_removal_with_file:
  assumes "hub_account (fst s) = Some acc" and "session (fst s) = Some cs"
      and "cache_file (snd s) = Some jar"
  shows "fst (disconnect True s) = Inr ()"
    and "cache_file (snd (snd (disconnect True s))) = None"
    and "\<not> undo_listener (fst (snd (disconnect True s)))"
    and "undo_listener_calls (snd (snd (disconnect True s)))
           = undo_listener_calls (snd s) + (if undo_listener (fst s) then 1 else 0)"
  using assms by (auto simp: disconnect_def remove_cache_file_def Let_def)

lemma disconnect_before_login:
  assumes "hub_account (fst s) = None"
  shows "disconnect rc s = (Inl AttributeError, s)"
  using assms by (simp add: disconnect_def)

text \<open>
  Claim C7, as stated, fails: \<^verbatim>\<open>disconnect\<close> does raise. Asked to remove the cache file
  when the file is not there, it raises: after a successful login, the first
  \<^verbatim>\<open>disconnect(remove_cache=True)\<close> deletes the file and returns; the second finds
  no file, and \<^verbatim>\<open>os.remove\<close> raises. And on a hub that has never been through
  \<^verbatim>\<open>login\<close> the account is \<^verbatim>\<open>None\<close>, so the first line of \<^verbatim>\<open>disconnect\<close>
  raises whatever its argument.
\<close>

theorem disconnect_twice_removing_cache_raises:
  "fst (login api_ok new_hub) = Inr True
   \<and> disconnect_results [True, True] (snd (login api_ok new_hub))
       = [Inr (), Inl FileNotFoundError]
   \<and> fst (disconnect False new_hub) = Inl AttributeError"
  by (simp add: login_def save_session_def disconnect_def remove_cache_file_def api_ok_def
      new_hub_def Let_def)

text \<open>
  Claim C7, amended. On a hub that has been through \<^verbatim>\<open>login\<close> (its account and session
  exist):
  \<^item> calling \<^verbatim>\<open>disconnect\<close> without cache removal any number of times never raises, and
    one or more such calls invoke the teardown callback once if one is registered and not
    at all otherwise; the first call clears the reference;
  \<^item> over any run of calls, with or without cache removal, the account is disconnected
    only if it was connected and the HTTP session closed only if it was open, each once;
  \<^item> a call with cache removal while the cache file is absent raises
    \<^verbatim>\<open>FileNotFoundError\<close> before it reaches the teardown callback: the callback is
    neither invoked nor cleared by that call;
  \<^item> a call with cache removal while the cache file is present deletes it, returns, and
    invokes and clears the teardown callback if one is registered.

  On a hub that has not been through \<^verbatim>\<open>login\<close> (no account), every call raises
  \<^verbatim>\<open>AttributeError\<close> and changes nothing. On any hub and over any run of calls, the
  teardown callback is invoked at most once.
\<close>

theorem disconnect_idempotent:
  "(hub_account (fst s) = Some acc \<and> session (fst s) = Some cs \<longrightarrow>
      disconnect_results (replicate n False) s = replicate n (Inr ())
      \<and> undo_listener_calls (snd (disconnects (replicate (Suc n) False) s))
          = undo_listener_calls (snd s) + (if undo_listener (fst s) then 1 else 0)
      \<and> \<not> undo_listener (fst (snd (disconnect False s)))
      \<and> account_disconnects (snd (disconnects (rc # rcs) s))
          = account_disconnects (snd s) + (if connected acc then 1 else 0)
      \<and> session_closes (snd (disconnects (rc # rcs) s))
          = session_closes (snd s) + (if closed cs then 0 else 1))
   \<and> undo_listener_calls (snd (disconnects flags s)) \<le> undo_listener_calls (snd s) + 1
   \<and> (hub_account (fst s) = Some acc \<and> session (fst s) = Some cs
        \<and> cache_file (snd s) = None \<longrightarrow>
      fst (disconnect True s) = Inl FileNotFoundError
      \<and> undo_listener (fst (snd (disconnect True s))) = undo_listener (fst s)
      \<and> undo_listener_calls (snd (snd (disconnect True s))) = undo_listener_calls (snd s)
      \<and> cache_file (snd (snd (disconnect True s))) = None)
   \<and> (hub_account (fst s) = Some acc \<and> session (fst s) = Some cs
        \<and> cache_file (snd s) = Some jar \<longrightarrow>
      fst (disconnect True s) = Inr ()
      \<and> cache_file (snd (snd (disconnect True s))) = None
      \<and> \<not> undo_listener (fst (snd (disconnect True s)))
      \<and> undo_listener_calls (snd (snd (disconnect True s)))
          = undo_listener_calls (snd s) + (if undo_listener (fst s) then 1 else 0))
   \<and> (hub_account (fst s) = None \<longrightarrow> disconnect rc s = (Inl AttributeError, s))"
proof -
  have "undo_listener_calls (snd (disconnects flags s)) \<le> teardown_budget (disconnects flags s)"
    by (simp add: teardown_budget_def)
  also have "\<dots> \<le> teardown_budget s" by (rule disconnects_budget)
  also have "\<dots> \<le> undo_listener_calls (snd s) + 1" by (simp add: teardown_budget_def)
  finally have once: "undo_listener_calls (snd (disconnects flags s)) \<le> undo_listener_calls (snd s) + 1" .
  have quiet: "hub_account (fst s) = Some acc \<and> session (fst s) = Some cs \<longrightarrow>
      disconnect_results (replicate n False) s = replicate n (Inr ())
      \<and> undo_listener_calls (snd (disconnects (replicate (Suc n) False) s))
          = undo_listener_calls (snd s) + (if undo_listener (fst s) then 1 else 0)
      \<and> \<not> undo_listener (fst (snd (disconnect False s)))
      \<and> account_disconnects (snd (disconnects (rc # rcs) s))
          = account_disconnects (snd s) + (if connected acc then 1 else 0)
      \<and> session_closes (snd (disconnects (rc # rcs) s))
          = session_closes (snd s) + (if closed cs then 0 else 1)"
    using disconnect_results_no_removal [of s acc cs n]
      disconnects_no_removal_teardown [of s acc cs n]
      disconnect_no_removal(2) [of s acc cs]
      disconnects_close_once [of s acc cs rc rcs]
    by blast
  have absent: "hub_account (fst s) = Some acc \<and> session (fst s) = Some cs
        \<and> cache_file (snd s) = None \<longrightarrow>
      fst (disconnect True s) = Inl FileNotFoundError
      \<and> undo_listener (fst (snd (disconnect True s))) = undo_listener (fst s)
      \<and> undo_listener_calls (snd (snd (disconnect True s))) = undo_listener_calls (snd s)
      \<and> cache_file (snd (snd (disconnect True s))) = None"
    using disconnect_removal_without_file [of s acc cs] by blast
  have present: "hub_account (fst s) = Some acc \<and> session (fst s) = Some cs
        \<and> cache_file (snd s) = Some jar \<longrightarrow>
      fst (disconnect True s) = Inr ()
      \<and> cache_file (snd (snd (disconnect True s))) = None
      \<and> \<not> undo_listener (fst (snd (disconnect True s)))
      \<and> undo_listener_calls (snd (snd (disconnect True s)))
          = undo_listener_calls (snd s) + (if undo_listener (fst s) then 1 else 0)"
    using disconnect_removal_with_file [of s acc cs jar] by blast
  have before: "hub_account (fst s) = None \<longrightarrow> disconnect rc s = (Inl AttributeError, s)"
    using disconnect_before_login [of s rc] by blast
  from once quiet absent present before show ?thesis by (intro conjI)
qed

theorem disconnect_idempotent_witness:
  "hub_account (fst (snd (login api_ok new_hub))) = Some \<lparr>connected = True\<rparr>
   \<and> session (fst (snd (login api_ok new_hub)))
       = Some \<lparr>session_cookie_jar = [''s=1''], closed = False\<rparr>
   \<and> cache_file (snd (snd (login api_ok new_hub))) = Some [''s=1'']
   \<and> disconnect_results [False, False, False] (snd (login api_ok new_hub))
       = [Inr (), Inr (), Inr ()]
   \<and> undo_listener_calls (snd (disconnects [False, False, False] (snd (login api_ok new_hub)))) = 1
   \<and> account_disconnects (snd (disconnects [True, True, False] (snd (login api_ok new_hub)))) = 1
   \<and> session_closes (snd (disconnects [True, True, False] (snd (login api_ok new_hub)))) = 1
   \<and> undo_listener_calls (snd (disconnects [True, True, False] (snd (login api_ok new_hub)))) \<le> 1
   \<and> fst (disconnect True (snd (login api_ok new_hub))) = Inr ()
   \<and> undo_listener_calls (snd (snd (disconnect True (snd (login api_ok new_hub))))) = 1
   \<and> hub_account (fst (snd (login (api_ok\<lparr>connect_raises := Some ClientConnectorError\<rparr>) new_hub)))
       = Some \<lparr>connected = False\<rparr>
   \<and> session (fst (snd (login (api_ok\<lparr>connect_raises := Some ClientConnectorError\<rparr>) new_hub)))
       = Some \<lparr>session_cookie_jar = [''s=1''], closed = False\<rparr>
   \<and> cache_file (snd (snd (login (api_ok\<lparr>connect_raises := Some ClientConnectorError\<rparr>) new_hub)))
       = None
   \<and> undo_listener (fst (snd (login (api_ok\<lparr>connect_raises := Some ClientConnectorError\<rparr>) new_hub)))
   \<and> fst (disconnect True
        (snd (login (api_ok\<lparr>connect_raises := Some ClientConnectorError\<rparr>) new_hub)))
       = Inl FileNotFoundError
   \<and> undo_listener (fst (snd (disconnect True
        (snd (login (api_ok\<lparr>connect_raises := Some ClientConnectorError\<rparr>) new_hub)))))
   \<and> undo_listener_calls (snd (snd (disconnect True
        (snd (login (api_ok\<lparr>connect_raises := Some ClientConnectorError\<rparr>) new_hub))))) = 0
   \<and> hub_account (fst new_hub) = None
   \<and> disconnect True new_hub = (Inl AttributeError, new_hub)"
proof -
  define s where "s = snd (login api_ok new_hub)"
  define f where "f = snd (login (api_ok\<lparr>connect_raises := Some ClientConnectorError\<rparr>) new_hub)"
  have acc: "hub_account (fst s) = Some \<lparr>connected = True\<rparr>"
    by (simp add: s_def login_def save_session_def api_ok_def new_hub_def Let_def)
  have ses: "session (fst s) = Some \<lparr>session_cookie_jar = [''s=1''], closed = False\<rparr>"
    by (simp add: s_def login_def save_session_def api_ok_def new_hub_def Let_def)
  have start: "undo_listener (fst s)" "undo_listener_calls (snd s) = 0"
    "account_disconnects (snd s) = 0" "session_closes (snd s) = 0"
    "cache_file (snd s) = Some [''s=1'']"
    by (simp_all add: s_def login_def save_session_def api_ok_def new_hub_def Let_def)
  have facc: "hub_account (fst f) = Some \<lparr>connected = False\<rparr>"
    by (simp add: f_def login_def login_handlers_def api_ok_def new_hub_def Let_def)
  have fses: "session (fst f) = Some \<lparr>session_cookie_jar = [''s=1''], closed = False\<rparr>"
    by (simp add: f_def login_def login_handlers_def api_ok_def new_hub_def Let_def)
  have fstart: "undo_listener (fst f)" "undo_listener_calls (snd f) = 0"
    "cache_file (snd f) = None"
    by (simp_all add: f_def login_def login_handlers_def api_ok_def new_hub_def Let_def)
  have none: "hub_account (fst new_hub) = None"
    by (simp add: new_hub_def)
  have three: "replicate (Suc (Suc (Suc 0))) False = [False, False, False]"
    "replicate (Suc (Suc (Suc 0))) (Inr ()) = [Inr (), Inr (), Inr ()]"
    by simp_all
  have quiet: "disconnect_results [False, False, False] s = [Inr (), Inr (), Inr ()]
        \<and> undo_listener_calls (snd (disconnects [False, False, False] s)) = 1"
    using disconnect_idempotent [of s "\<lparr>connected = True\<rparr>"
        "\<lparr>session_cookie_jar = [''s=1''], closed = False\<rparr>" "Suc (Suc (Suc 0))" True "[]" "[]"
        "[''s=1'']"]
      disconnect_idempotent [of s "\<lparr>connected = True\<rparr>"
        "\<lparr>session_cookie_jar = [''s=1''], closed = False\<rparr>" "Suc (Suc 0)" True "[]" "[]"
        "[''s=1'']"]
      acc ses start
    by (simp only: three replicate.simps) simp
  have mixed: "account_disconnects (snd (disconnects [True, True, False] s)) = 1
        \<and> session_closes (snd (disconnects [True, True, False] s)) = 1
        \<and> undo_listener_calls (snd (disconnects [True, True, False] s)) \<le> 1
        \<and> fst (disconnect True s) = Inr ()
        \<and> undo_listener_calls (snd (snd (disconnect True s))) = 1"
    using disconnect_idempotent [of s "\<lparr>connected = True\<rparr>"
        "\<lparr>session_cookie_jar = [''s=1''], closed = False\<rparr>" 0 True "[True, False]"
        "[True, True, False]" "[''s=1'']"]
      acc ses start
    by simp
  have absent: "fst (disconnect True f) = Inl FileNotFoundError
        \<and> undo_listener (fst (snd (disconnect True f)))
        \<and> undo_listener_calls (snd (snd (disconnect True f))) = 0"
    using disconnect_idempotent [of f "\<lparr>connected = False\<rparr>"
        "\<lparr>session_cookie_jar = [''s=1''], closed = False\<rparr>" 0 True "[]" "[]" "[]"]
      facc fses fstart
    by simp
  have before: "disconnect True new_hub = (Inl AttributeError, new_hub)"
    using disconnect_idempotent [of new_hub "\<lparr>connected = False\<rparr>"
        "\<lparr>session_cookie_jar = [], closed = False\<rparr>" 0 True "[]" "[]" "[]"] none
    by simp
  from acc ses start(5) quiet mixed facc fses fstart(1,3) absent none before
  show ?thesis by (simp add: s_def f_def)
qed

section \<open>The camera's stream source\<close>

lemma stream_source_cached:
  "truthy (stream_source_cache cam) \<Longrightarrow>
     stream_source a cam = (Inr (stream_source_cache cam), cam)"
  by (simp add: stream_source_def)

lemma stream_source_direct:
  assumes "\<not> truthy (stream_source_cache cam)"
      and "rtsp_stream cam = RTSP_STREAM_DIRECT"
      and "get_direct_rtsp_url a (hd_stream cam) = Inr (Some url)" and "url \<noteq> []"
  shows "stream_source a cam
           = (Inr (Some url),
              cam\<lparr>url_requests := Suc (url_requests cam), stream_source_cache := Some url\<rparr>)"
  using assms by (simp add: stream_source_def direct_operand_def)

lemma stream_source_direct_fallback:
  assumes "\<not> truthy (stream_source_cache cam)"
      and "rtsp_stream cam = RTSP_STREAM_DIRECT"
      and "get_direct_rtsp_url a (hd_stream cam) = Inr direct" and "\<not> truthy direct"
      and "get_rtsp_url a True (hd_stream cam) = Inr relay"
  shows "stream_source a cam
           = (Inr relay,
              cam\<lparr>url_requests := Suc (Suc (url_requests cam)), stream_source_cache := relay\<rparr>)"
  using assms by (simp add: stream_source_def direct_operand_def)

lemma stream_source_external:
  assumes "\<not> truthy (stream_source_cache cam)"
      and "rtsp_stream cam = RTSP_STREAM_EXTERNAL"
      and "get_rtsp_url a False (hd_stream cam) = Inr relay"
  shows "stream_source a cam
           = (Inr relay,
              cam\<lparr>url_requests := Suc (url_requests cam), stream_source_cache := relay\<rparr>)"
  using assms by (simp add: stream_source_def direct_operand_def)

lemma stream_source_second_call:
  assumes "stream_source a cam = (Inr (Some url), cam1)" and "url \<noteq> []"
  shows "stream_source b cam1 = (Inr (Some url), cam1)"
proof -
  have "stream_source_cache cam1 = Some url"
    using assms
    by (auto simp: stream_source_def direct_operand_def Let_def
        split: if_splits sum.splits prod.splits)
  then show ?thesis using assms(2) by (simp add: stream_source_def)
qed

text \<open>
  Claim C8, as stated, fails in direct mode for a camera that has no direct stream: the
  vendor's method returns \<^verbatim>\<open>None\<close>, the \<^verbatim>\<open>or\<close> goes on to its second operand, and
  the stream source is the internal relay URL.
\<close>

theorem stream_source_direct_without_direct_url:
  "get_direct_rtsp_url cam_without_direct True = Inr None
   \<and> fst (stream_source cam_without_direct (new_cam True RTSP_STREAM_DIRECT))
       = Inr (Some ''rtsp://u:p@int/hd'')
   \<and> get_rtsp_url cam_without_direct True True = Inr (Some ''rtsp://u:p@int/hd'')
   \<and> fst (stream_source cam_without_direct (new_cam True RTSP_STREAM_DIRECT))
       \<noteq> get_direct_rtsp_url cam_without_direct True"
  by (simp add: stream_source_def direct_operand_def cam_without_direct_def new_cam_def
      relay_url_def)

text \<open>
  Claim C8, amended. On the first call (nothing cached yet): in direct mode, when the
  camera gives a non-empty direct RTSP URL for the configured quality, that URL is the
  stream source; when it gives none, the stream source is the internal relay URL for that
  quality. In external mode the stream source is the non-internal relay URL for that
  quality. A non-empty result is cached: a second call returns the same string and makes
  no call to the camera, whatever the camera would answer by then.
\<close>

theorem stream_source_resolution:
  "(\<not> truthy (stream_source_cache cam) \<and> rtsp_stream cam = RTSP_STREAM_DIRECT
      \<and> get_direct_rtsp_url a (hd_stream cam) = Inr (Some url) \<and> url \<noteq> [] \<longrightarrow>
        fst (stream_source a cam) = Inr (Some url))
   \<and> (\<not> truthy (stream_source_cache cam) \<and> rtsp_stream cam = RTSP_STREAM_DIRECT
      \<and> get_direct_rtsp_url a (hd_stream cam) = Inr direct \<and> \<not> truthy direct
      \<and> get_rtsp_url a True (hd_stream cam) = Inr relay \<longrightarrow>
        fst (stream_source a cam) = Inr relay)
   \<and> (\<not> truthy (stream_source_cache cam) \<and> rtsp_stream cam = RTSP_STREAM_EXTERNAL
      \<and> get_rtsp_url a False (hd_stream cam) = Inr relay \<longrightarrow>
        fst (stream_source a cam) = Inr relay)
   \<and> (fst (stream_source a cam) = Inr (Some url) \<and> url \<noteq> [] \<longrightarrow>
        fst (stream_source b (snd (stream_source a cam))) = Inr (Some url)
        \<and> snd (stream_source b (snd (stream_source a cam))) = snd (stream_source a cam)
        \<and> url_requests (snd (stream_source b (snd (stream_source a cam))))
            = url_requests (snd (stream_source a cam)))"
proof -
  have cached: "stream_source b (snd (stream_source a cam)) = (Inr (Some url), snd (stream_source a cam))"
    if "fst (stream_source a cam) = Inr (Some url)" and "url \<noteq> []"
  proof (rule stream_source_second_call)
    show "stream_source a cam = (Inr (Some url), snd (stream_source a cam))"
      using that(1) by (metis prod.collapse)
    show "url \<noteq> []" by (rule that(2))
  qed
  show ?thesis
    using stream_source_direct [of cam a url] stream_source_direct_fallback [of cam a direct relay]
      stream_source_external [of cam a relay] cached
    by simp
qed

theorem stream_source_resolution_witness:
  "fst (stream_source cam_with_direct (new_cam True RTSP_STREAM_DIRECT))
     = Inr (Some ''rtsp://u:p@cam/hd'')
   \<and> fst (stream_source cam_with_direct (new_cam False RTSP_STREAM_DIRECT))
     = Inr (Some ''rtsp://u:p@cam/sd'')
   \<and> fst (stream_source cam_without_direct (new_cam False RTSP_STREAM_DIRECT))
     = Inr (Some ''rtsp://u:p@int/sd'')
   \<and> fst (stream_source cam_with_direct (new_cam True RTSP_STREAM_EXTERNAL))
     = Inr (Some ''rtsp://u:p@ext/hd'')
   \<and> fst (stream_source cam_without_direct
            (snd (stream_source cam_with_direct (new_cam True RTSP_STREAM_DIRECT))))
     = Inr (Some ''rtsp://u:p@cam/hd'')
   \<and> url_requests (snd (stream_source cam_without_direct
            (snd (stream_source cam_with_direct (new_cam True RTSP_STREAM_DIRECT))))) = 1"
proof -
  have hd: "fst (stream_source cam_with_direct (new_cam True RTSP_STREAM_DIRECT))
     = Inr (Some ''rtsp://u:p@cam/hd'')"
    using stream_source_resolution [of "new_cam True RTSP_STREAM_DIRECT" cam_with_direct
        "''rtsp://u:p@cam/hd''" None None cam_without_direct]
    by (simp add: new_cam_def cam_with_direct_def)
  have sd: "fst (stream_source cam_with_direct (new_cam False RTSP_STREAM_DIRECT))
     = Inr (Some ''rtsp://u:p@cam/sd'')"
    using stream_source_resolution [of "new_cam False RTSP_STREAM_DIRECT" cam_with_direct
        "''rtsp://u:p@cam/sd''" None None cam_without_direct]
    by (simp add: new_cam_def cam_with_direct_def)
  have fallback: "fst (stream_source cam_without_direct (new_cam False RTSP_STREAM_DIRECT))
     = Inr (Some ''rtsp://u:p@int/sd'')"
    using stream_source_resolution [of "new_cam False RTSP_STREAM_DIRECT" cam_without_direct
        "''x''" None "Some ''rtsp://u:p@int/sd''" cam_without_direct]
    by (simp add: new_cam_def cam_without_direct_def relay_url_def)
  have ext: "fst (stream_source cam_with_direct (new_cam True RTSP_STREAM_EXTERNAL))
     = Inr (Some ''rtsp://u:p@ext/hd'')"
    using stream_source_resolution [of "new_cam True RTSP_STREAM_EXTERNAL" cam_with_direct
        "''x''" None "Some ''rtsp://u:p@ext/hd''" cam_without_direct]
    by (simp add: new_cam_def cam_with_direct_def relay_url_def)
  have first_requests:
    "url_requests (snd (stream_source cam_with_direct (new_cam True RTSP_STREAM_DIRECT))) = 1"
    by (simp add: stream_source_def direct_operand_def new_cam_def cam_with_direct_def)
  have again: "fst (stream_source cam_without_direct
            (snd (stream_source cam_with_direct (new_cam True RTSP_STREAM_DIRECT))))
          = Inr (Some ''rtsp://u:p@cam/hd'')
     \<and> url_requests (snd (stream_source cam_without_direct
            (snd (stream_source cam_with_direct (new_cam True RTSP_STREAM_DIRECT)))))
          = url_requests (snd (stream_source cam_with_direct (new_cam True RTSP_STREAM_DIRECT)))"
    using stream_source_resolution [of "new_cam True RTSP_STREAM_DIRECT" cam_with_direct
        "''rtsp://u:p@cam/hd''" None None cam_without_direct] hd
    by simp
  from hd sd fallback ext again first_requests show ?thesis by simp
qed

section \<open>The camera's still image\<close>



end
